theory Spec2Isabelle
  imports Main "HOL-Library.Word"
begin

section \<open>log4g: the lifecycle manager and the logging call sites of log4g.go\<close>

text \<open>
  The package keeps its whole state in package-level variables. The model collects them in
  one record that every function takes and returns. What the package does to the outside
  (creating a rotating file logger, writing to or closing a sink, printing through the
  standard library logger) is appended to a trace of events, so that "which sink was
  written" and "which sinks were closed" are facts about the returned state.

  Only sequential executions are modelled: \<open>sync.Once\<close> is its done-flag, an atomic load
  or store of \<open>initialized\<close> is a read or write of the field.
\<close>

subsection \<open>Constants\<close>

definition accessFilename :: string where "accessFilename = ''access.log''"
definition errorFilename :: string where "errorFilename = ''error.log''"
definition slowFilename :: string where "slowFilename = ''slow.log''"
definition statFilename :: string where "statFilename = ''stat.log''"

definition consoleMode :: string where "consoleMode = ''console''"
definition varMode :: string where "varMode = ''var''"

definition defaultHostName :: string where "defaultHostName = ''log4g''"

definition infoPrefix :: string where "infoPrefix = ''[INFO] ''"
definition errorPrefix :: string where "errorPrefix = ''[ERROR] ''"
definition slowPrefix :: string where "slowPrefix = ''[SLOW]''"
definition backupFileDelimiter :: string where "backupFileDelimiter = ''-''"
definition callerInnerDepth :: int where "callerInnerDepth = 5"
definition flags :: nat where "flags = 0"

subsection \<open>Data\<close>

text \<open>
  The three package errors, and \<open>ExternalError\<close> for any error value that comes back from
  a call outside this file (creating, writing or closing a file logger).
\<close>

datatype error =
    ErrLogPathNotSet
  | ErrLogNotInitialized
  | ErrLogNameSpaceNotSet
  | ExternalError string

datatype stream = Stdout | Stderr

text \<open>The value \<open>log.New(out, prefix, flag)\<close> of the standard library.\<close>

record Logger =
  logger_out :: stream
  logger_prefix :: string
  logger_flag :: nat

definition log_New :: "stream \<Rightarrow> string \<Rightarrow> nat \<Rightarrow> Logger" where
  "log_New w p f = \<lparr>logger_out = w, logger_prefix = p, logger_flag = f\<rparr>"

definition newline :: char where "newline = CHR 0x0A"

text \<open>
  The bytes \<open>logger.Print(s)\<close> sends to the logger's stream. Every logger of this file is
  made with \<open>flags = 0x0\<close>, for which the standard library writes the prefix, the text,
  and a newline when the text does not end in one.
\<close>

definition Logger_Print :: "Logger \<Rightarrow> string \<Rightarrow> string" where
  "Logger_Print l s =
     logger_prefix l @ s @ (if s = [] \<or> last s \<noteq> newline then [newline] else [])"

type_synonym handle = nat

text \<open>
  An \<open>io.WriteCloser\<close> held by the package: the console \<open>logWriter\<close> of this file, or the
  rotating file logger that \<open>NewLogger\<close> returns (its type is declared in another file of
  the package; here it is an opaque handle).
\<close>

datatype sink = LogWriter Logger | FileLogger handle

definition newLogWriter :: "Logger \<Rightarrow> sink" where
  "newLogWriter l = LogWriter l"

text \<open>\<open>DefaultBackupRule\<close> and \<open>NewLessLogger\<close> are declared in other files of the package;
  here their results are the values built from their arguments.\<close>

datatype backup_rule = DefaultBackupRule string string int bool

datatype LessLogger = NewLessLogger int

record logOptions =
  gzipEnabled :: bool
  logStackCoolDownMills :: int
  keepDays :: int

type_synonym LogOption = "logOptions \<Rightarrow> logOptions"

text \<open>
  \<open>Config\<close> is declared in another file of the package; these are the fields that
  log4g.go reads. Go's \<open>int\<close> is modelled by \<open>int\<close>: the values are only stored, compared
  with 0 and passed on, so no arithmetic can overflow.
\<close>

record Config =
  LogMode :: string
  Path :: string
  NameSpace :: string
  StackCoolDownMillis :: int
  Compress :: bool
  KeepDays :: int

datatype event =
    NewLoggerCall string backup_rule bool
  | FileWrite handle string "error option"
  | FileClose handle "error option"
  | StreamWrite stream string
  | StdLogPrint string
  | StdLogPrintln error
  | LessLoggerErrorf "LessLogger option" string

text \<open>
  What the surroundings answer. The host name and \<open>path.Join\<close> do not depend on what the
  package has done; the other answers may depend on the events so far.
\<close>

record env =
  os_Hostname :: "string \<times> error option"
  path_Join :: "string list \<Rightarrow> string"
  NewLogger :: "event list \<Rightarrow> string \<Rightarrow> backup_rule \<Rightarrow> bool \<Rightarrow> handle option \<times> error option"
  file_Write :: "event list \<Rightarrow> handle \<Rightarrow> string \<Rightarrow> error option"
  file_Close :: "event list \<Rightarrow> handle \<Rightarrow> error option"
  time_Now :: "event list \<Rightarrow> string"
  runtime_Caller :: "event list \<Rightarrow> int \<Rightarrow> string \<times> int \<times> bool"
  debug_Stack :: "event list \<Rightarrow> string"

text \<open>The package-level variables, and the trace.\<close>

record state =
  writeConsole :: bool
  infoLog :: "sink option"
  errorLog :: "sink option"
  slowLog :: "sink option"
  statLog :: "sink option"
  stackLog :: "LessLogger option"
  once :: bool
  initialized :: "32 word"
  options :: logOptions
  trace :: "event list"

definition init_state :: state where
  "init_state =
     \<lparr>writeConsole = False, infoLog = None, errorLog = None, slowLog = None,
      statLog = None, stackLog = None, once = False, initialized = 0,
      options = \<lparr>gzipEnabled = False, logStackCoolDownMills = 0, keepDays = 0\<rparr>,
      trace = []\<rparr>"

definition emit :: "event \<Rightarrow> state \<Rightarrow> state" where
  "emit ev s = s\<lparr>trace := trace s @ [ev]\<rparr>"

subsection \<open>Options\<close>

definition WithCoolDownMillis :: "int \<Rightarrow> LogOption" where
  "WithCoolDownMillis millis = (\<lambda>opts. opts\<lparr>logStackCoolDownMills := millis\<rparr>)"

definition WithKeepDays :: "int \<Rightarrow> LogOption" where
  "WithKeepDays days = (\<lambda>opts. opts\<lparr>keepDays := days\<rparr>)"

definition WithGzip :: LogOption where
  "WithGzip = (\<lambda>opts. opts\<lparr>gzipEnabled := True\<rparr>)"

definition handleOptions :: "LogOption list \<Rightarrow> state \<Rightarrow> state" where
  "handleOptions opts s = s\<lparr>options := fold (\<lambda>opt o'. opt o') opts (options s)\<rparr>"

subsection \<open>Setup\<close>

text \<open>\<open>once.Do(f)\<close>: \<open>f\<close> runs unless the guard is used; \<open>r0\<close> is what the variables
  captured by \<open>f\<close> hold when it does not run.\<close>

definition once_Do :: "(state \<Rightarrow> 'a \<times> state) \<Rightarrow> 'a \<Rightarrow> state \<Rightarrow> 'a \<times> state" where
  "once_Do f r0 s =
     (if once s then (r0, s)
      else (let (r, s') = f s in (r, s'\<lparr>once := True\<rparr>)))"

definition createOutput :: "env \<Rightarrow> string \<Rightarrow> state \<Rightarrow> (sink option \<times> error option) \<times> state" where
  "createOutput e p s =
     (if length p = 0 then ((None, Some ErrLogPathNotSet), s)
      else
        (let rule = DefaultBackupRule p backupFileDelimiter (keepDays (options s))
                      (gzipEnabled (options s));
             (h, err) = NewLogger e (trace s) p rule (gzipEnabled (options s))
         in ((map_option FileLogger h, err),
             emit (NewLoggerCall p rule (gzipEnabled (options s))) s)))"

definition getHostname :: "env \<Rightarrow> string" where
  "getHostname e =
     (let (hostname, err) = os_Hostname e
      in if err \<noteq> None \<or> length hostname = 0 then defaultHostName else hostname)"

definition setupWithConsole_body :: "state \<Rightarrow> unit \<times> state" where
  "setupWithConsole_body s =
     (let s1 = s\<lparr>infoLog := Some (newLogWriter (log_New Stdout infoPrefix flags))\<rparr>;
          s2 = s1\<lparr>errorLog := Some (newLogWriter (log_New Stderr errorPrefix flags))\<rparr>;
          s3 = s2\<lparr>slowLog := Some (newLogWriter (log_New Stderr slowPrefix flags))\<rparr>;
          s4 = s3\<lparr>statLog := infoLog s3\<rparr>
      in ((), s4\<lparr>initialized := 1\<rparr>))"

definition setupWithConsole :: "state \<Rightarrow> state" where
  "setupWithConsole s = snd (once_Do setupWithConsole_body () (s\<lparr>writeConsole := True\<rparr>))"

text \<open>The function literal that \<open>setupWithFiles\<close> hands to \<open>once.Do\<close>; its result is the
  captured variable \<open>err\<close>.\<close>

definition setupWithFiles_body ::
  "env \<Rightarrow> LogOption list \<Rightarrow> string \<Rightarrow> string \<Rightarrow> string \<Rightarrow> string \<Rightarrow> state \<Rightarrow> error option \<times> state" where
  "setupWithFiles_body e opts accessFile errorFile slowFile statFile s =
     (let s0 = handleOptions opts s;
          ((w1, err1), t1) = createOutput e accessFile s0;
          s1 = t1\<lparr>infoLog := w1\<rparr>
      in if err1 \<noteq> None then (err1, s1)
      else
        (let ((w2, err2), t2) = createOutput e errorFile s1;
             s2 = t2\<lparr>errorLog := w2\<rparr>
         in if err2 \<noteq> None then (err2, s2)
         else
           (let ((w3, err3), t3) = createOutput e slowFile s2;
                s3 = t3\<lparr>slowLog := w3\<rparr>
            in if err3 \<noteq> None then (err3, s3)
            else
              (let ((w4, err4), t4) = createOutput e statFile s3;
                   s4 = t4\<lparr>statLog := w4\<rparr>
               in if err4 \<noteq> None then (err4, s4)
               else
                 (let s5 = s4\<lparr>stackLog :=
                                 Some (NewLessLogger (logStackCoolDownMills (options s4)))\<rparr>
                  in (err4, s5\<lparr>initialized := 1\<rparr>))))))"

definition setupWithFiles :: "env \<Rightarrow> Config \<Rightarrow> state \<Rightarrow> error option \<times> state" where
  "setupWithFiles e c s =
     (if length (Path c) = 0 then (Some ErrLogPathNotSet, s)
      else
        (let opts = [WithCoolDownMillis (StackCoolDownMillis c)]
                    @ (if Compress c then [WithGzip] else [])
                    @ (if KeepDays c > 0 then [WithKeepDays (KeepDays c)] else []);
             accessFile = path_Join e [Path c, accessFilename];
             errorFile = path_Join e [Path c, errorFilename];
             slowFile = path_Join e [Path c, slowFilename];
             statFile = path_Join e [Path c, statFilename]
         in once_Do (setupWithFiles_body e opts accessFile errorFile slowFile statFile) None s))"

definition setupWithVolume :: "env \<Rightarrow> Config \<Rightarrow> state \<Rightarrow> error option \<times> state" where
  "setupWithVolume e c s =
     (if length (NameSpace c) = 0 then (Some ErrLogNameSpaceNotSet, s)
      else
        (let hostname = getHostname e
         in setupWithFiles e (c\<lparr>Path := path_Join e [Path c, NameSpace c, hostname]\<rparr>) s))"

definition SetUp :: "env \<Rightarrow> Config \<Rightarrow> state \<Rightarrow> error option \<times> state" where
  "SetUp e c s =
     (if LogMode c = consoleMode then (None, setupWithConsole s)
      else if LogMode c = varMode then setupWithVolume e c s
      else setupWithFiles e c s)"

subsection \<open>Closing\<close>

text \<open>\<open>w.Close()\<close>: the console writer returns nil and does nothing; a file logger is asked
  to close and its answer is recorded.\<close>

definition sink_Close :: "env \<Rightarrow> sink \<Rightarrow> state \<Rightarrow> error option \<times> state" where
  "sink_Close e w s =
     (case w of
        LogWriter l \<Rightarrow> (None, s)
      | FileLogger h \<Rightarrow>
          (let r = file_Close e (trace s) h in (r, emit (FileClose h r) s)))"

text \<open>One block \<open>if xLog != nil { if err := xLog.Close(); err != nil { return err } }\<close>;
  the result is the error that makes \<open>Close\<close> return, if any.\<close>

definition close_if_set :: "env \<Rightarrow> sink option \<Rightarrow> state \<Rightarrow> error option \<times> state" where
  "close_if_set e w s = (case w of None \<Rightarrow> (None, s) | Some x \<Rightarrow> sink_Close e x s)"

definition Close :: "env \<Rightarrow> state \<Rightarrow> error option \<times> state" where
  "Close e s =
     (if writeConsole s then (None, s)
      else if initialized s = 0 then (Some ErrLogNotInitialized, s)
      else
        (let s0 = s\<lparr>initialized := 0\<rparr>;
             (r1, s1) = close_if_set e (infoLog s0) s0
         in if r1 \<noteq> None then (r1, s1)
         else
           (let (r2, s2) = close_if_set e (errorLog s1) s1
            in if r2 \<noteq> None then (r2, s2)
            else
              (let (r3, s3) = close_if_set e (slowLog s2) s2
               in if r3 \<noteq> None then (r3, s3)
               else
                 (let (r4, s4) = close_if_set e (statLog s3) s3
                  in if r4 \<noteq> None then (r4, s4)
                  else (None, s4))))))"

subsection \<open>Time stamp and caller\<close>

text \<open>\<open>time.Now().Format(TimeFormat)\<close> is the environment's answer \<open>time_Now\<close>.\<close>

definition AddTime :: "env \<Rightarrow> string \<Rightarrow> state \<Rightarrow> string" where
  "AddTime e msg s = time_Now e (trace s) @ '' '' @ msg"

text \<open>The loop of \<open>getCaller\<close>: from index \<open>i\<close> down to 1, stop at the first \<open>/\<close>.\<close>

fun shortFile :: "string \<Rightarrow> nat \<Rightarrow> string" where
  "shortFile file 0 = file"
| "shortFile file (Suc i) =
     (if file ! Suc i = CHR ''/'' then drop (Suc i + 1) file else shortFile file i)"

function digits :: "nat \<Rightarrow> string" where
  "digits n =
     (if n < 10 then [char_of (48 + n)] else digits (n div 10) @ [char_of (48 + n mod 10)])"
  by pat_completeness auto
termination
  by (relation "measure id") auto

text \<open>\<open>strconv.Itoa\<close>.\<close>

definition Itoa :: "int \<Rightarrow> string" where
  "Itoa i = (if i < 0 then ''-'' @ digits (nat (- i)) else digits (nat i))"

definition getCaller :: "env \<Rightarrow> int \<Rightarrow> state \<Rightarrow> string" where
  "getCaller e callDepth s =
     (let (file, line, ok) = runtime_Caller e (trace s) callDepth
      in if ok then shortFile file (length file - 1) @ '':'' @ Itoa line else [])"

definition AddTimeAndCaller :: "env \<Rightarrow> string \<Rightarrow> int \<Rightarrow> state \<Rightarrow> string" where
  "AddTimeAndCaller e msg callDepth s =
     (let buf = time_Now e (trace s) @ '' '';
          caller = getCaller e callDepth s;
          buf' = (if length caller > 0 then buf @ caller @ '' '' else buf)
      in buf' @ msg)"

subsection \<open>Writing\<close>

text \<open>\<open>writer.Write(data)\<close>: the console writer prints through its logger and returns
  nil; a file logger is asked to write and its answer is recorded.\<close>

definition sink_Write :: "env \<Rightarrow> sink \<Rightarrow> string \<Rightarrow> state \<Rightarrow> error option \<times> state" where
  "sink_Write e w data s =
     (case w of
        LogWriter l \<Rightarrow> (None, emit (StreamWrite (logger_out l) (Logger_Print l data)) s)
      | FileLogger h \<Rightarrow>
          (let r = file_Write e (trace s) h data in (r, emit (FileWrite h data r) s)))"

text \<open>\<open>output\<close> (a keyword of Isabelle, hence the prime) and \<open>outputError\<close>: write the line
  to the writer and report a failed write with \<open>log.Println\<close>, or, with no writer, print
  the line with \<open>log.Print\<close> of the standard library.\<close>

definition output' :: "env \<Rightarrow> sink option \<Rightarrow> string \<Rightarrow> state \<Rightarrow> state" where
  "output' e writer msg s =
     (let buf = AddTime e msg s
      in case writer of
           Some w \<Rightarrow>
             (let (err, s1) = sink_Write e w buf s
              in (case err of Some x \<Rightarrow> emit (StdLogPrintln x) s1 | None \<Rightarrow> s1))
         | None \<Rightarrow> emit (StdLogPrint buf) s)"

definition outputError :: "env \<Rightarrow> sink option \<Rightarrow> string \<Rightarrow> int \<Rightarrow> state \<Rightarrow> state" where
  "outputError e writer msg callDepth s =
     (let content = AddTimeAndCaller e msg callDepth s
      in case writer of
           Some w \<Rightarrow>
             (let (err, s1) = sink_Write e w content s
              in (case err of Some x \<Rightarrow> emit (StdLogPrintln x) s1 | None \<Rightarrow> s1))
         | None \<Rightarrow> emit (StdLogPrint content) s)"

definition infoSync :: "env \<Rightarrow> string \<Rightarrow> state \<Rightarrow> state" where
  "infoSync e msg s =
     (if initialized s = 0 then output' e None msg s else output' e (infoLog s) msg s)"

definition errorSync :: "env \<Rightarrow> string \<Rightarrow> int \<Rightarrow> state \<Rightarrow> state" where
  "errorSync e msg callDepth s =
     (if initialized s = 0 then outputError e None msg callDepth s
      else outputError e (errorLog s) msg callDepth s)"

definition slowSync :: "env \<Rightarrow> string \<Rightarrow> state \<Rightarrow> state" where
  "slowSync e msg s =
     (if initialized s = 0 then output' e None msg s else output' e (slowLog s) msg s)"

definition statSync :: "env \<Rightarrow> string \<Rightarrow> state \<Rightarrow> state" where
  "statSync e msg s =
     (if initialized s = 0 then output' e None msg s else output' e (statLog s) msg s)"

text \<open>\<open>stackLog.Errorf\<close> belongs to the rate-limited logger declared in another file; the
  call is recorded with its receiver and the formatted text.\<close>

definition stackSync :: "env \<Rightarrow> string \<Rightarrow> state \<Rightarrow> state" where
  "stackSync e msg s =
     (let content = msg @ [newline] @ debug_Stack e (trace s)
      in if initialized s = 0 then output' e None content s
         else emit (LessLoggerErrorf (stackLog s) content) s)"

subsection \<open>Sequences of calls\<close>

datatype call =
    CallSetUp Config
  | CallClose
  | CallInfo string
  | CallError string int
  | CallSlow string
  | CallStat string
  | CallStack string

fun exec :: "env \<Rightarrow> call \<Rightarrow> state \<Rightarrow> state" where
  "exec e (CallSetUp c) s = snd (SetUp e c s)"
| "exec e CallClose s = snd (Close e s)"
| "exec e (CallInfo msg) s = infoSync e msg s"
| "exec e (CallError msg d) s = errorSync e msg d s"
| "exec e (CallSlow msg) s = slowSync e msg s"
| "exec e (CallStat msg) s = statSync e msg s"
| "exec e (CallStack msg) s = stackSync e msg s"

fun run :: "env \<Rightarrow> call list \<Rightarrow> state \<Rightarrow> state" where
  "run e [] s = s"
| "run e (c # cs) s = run e cs (exec e c s)"

text \<open>The events a step appended to the trace.\<close>

definition new_events :: "state \<Rightarrow> state \<Rightarrow> event list" where
  "new_events s s' = drop (length (trace s)) (trace s')"

definition is_logging :: "call \<Rightarrow> bool" where
  "is_logging c = (case c of CallSetUp _ \<Rightarrow> False | CallClose \<Rightarrow> False | _ \<Rightarrow> True)"

text \<open>The state after \<open>n\<close> calls of \<open>SetUp\<close> with the same configuration.\<close>

fun SetUp_n :: "env \<Rightarrow> Config \<Rightarrow> nat \<Rightarrow> state \<Rightarrow> state" where
  "SetUp_n e c 0 s = s"
| "SetUp_n e c (Suc n) s = SetUp_n e c n (snd (SetUp e c s))"

text \<open>The file loggers among the four sinks, in the order in which \<open>Close\<close> visits them,
  and what a trace says about close calls: which handles, with which answers.\<close>

definition sinks_in_order :: "state \<Rightarrow> sink option list" where
  "sinks_in_order s = [infoLog s, errorLog s, slowLog s, statLog s]"

fun file_handles :: "sink option list \<Rightarrow> handle list" where
  "file_handles [] = []"
| "file_handles (Some (FileLogger h) # ws) = h # file_handles ws"
| "file_handles (_ # ws) = file_handles ws"

fun closed_handles :: "event list \<Rightarrow> handle list" where
  "closed_handles [] = []"
| "closed_handles (FileClose h r # evs) = h # closed_handles evs"
| "closed_handles (_ # evs) = closed_handles evs"

fun close_answers :: "event list \<Rightarrow> error option list" where
  "close_answers [] = []"
| "close_answers (FileClose h r # evs) = r # close_answers evs"
| "close_answers (_ # evs) = close_answers evs"

text \<open>Closing a list of sinks in order and stopping at the first error: the error, and
  the events of the close calls made.\<close>

fun close_seq :: "env \<Rightarrow> event list \<Rightarrow> sink option list \<Rightarrow> error option \<times> event list" where
  "close_seq e hist [] = (None, [])"
| "close_seq e hist (Some (FileLogger h) # ws) =
     (let r = file_Close e hist h
      in if r \<noteq> None then (r, [FileClose h r])
         else (let (r', evs) = close_seq e (hist @ [FileClose h r]) ws
               in (r', FileClose h r # evs)))"
| "close_seq e hist (_ # ws) = close_seq e hist ws"

text \<open>The events of writing the line \<open>buf\<close> to the sink \<open>w\<close>: the write, and for a file
  logger whose write fails the report through \<open>log.Println\<close>.\<close>

definition written_to :: "env \<Rightarrow> sink \<Rightarrow> string \<Rightarrow> state \<Rightarrow> event list" where
  "written_to e w buf s =
     (case w of
        LogWriter l \<Rightarrow> [StreamWrite (logger_out l) (Logger_Print l buf)]
      | FileLogger h \<Rightarrow>
          (let r = file_Write e (trace s) h buf
           in FileWrite h buf r # (case r of None \<Rightarrow> [] | Some x \<Rightarrow> [StdLogPrintln x])))"

subsection \<open>Example environments and configurations\<close>

fun join_slash :: "string list \<Rightarrow> string" where
  "join_slash [] = []"
| "join_slash [x] = x"
| "join_slash (x # xs) = x @ ''/'' @ join_slash xs"

text \<open>An environment in which everything succeeds; the handle of a new file logger is
  the number of events so far.\<close>

definition env_ok :: env where
  "env_ok =
     \<lparr>os_Hostname = (''node1'', None),
      path_Join = join_slash,
      NewLogger = (\<lambda>hist p rule gz. (Some (length hist), None)),
      file_Write = (\<lambda>hist h data. None),
      file_Close = (\<lambda>hist h. None),
      time_Now = (\<lambda>hist. ''2020-01-02 03:04:05.000''),
      runtime_Caller = (\<lambda>hist d. (''/src/app/main.go'', 42, True)),
      debug_Stack = (\<lambda>hist. ''goroutine 1'')\<rparr>"

text \<open>No file logger can be created.\<close>

definition env_create_fails :: env where
  "env_create_fails =
     env_ok\<lparr>NewLogger := (\<lambda>hist p rule gz. (None, Some (ExternalError ''permission denied'')))\<rparr>"

text \<open>The first file logger created cannot be closed.\<close>

definition env_close_fails :: env where
  "env_close_fails =
     env_ok\<lparr>file_Close := (\<lambda>hist h. if h = 0 then Some (ExternalError ''close failed'') else None)\<rparr>"

text \<open>Host name resolution fails.\<close>

definition env_no_hostname :: env where
  "env_no_hostname = env_ok\<lparr>os_Hostname := ([], Some (ExternalError ''no hostname''))\<rparr>"

definition cfg_file :: Config where
  "cfg_file =
     \<lparr>LogMode = ''file'', Path = ''logs'', NameSpace = [], StackCoolDownMillis = 100,
      Compress = True, KeepDays = 3\<rparr>"

definition cfg_file_no_path :: Config where
  "cfg_file_no_path = cfg_file\<lparr>Path := []\<rparr>"

definition cfg_volume :: Config where
  "cfg_volume = cfg_file\<lparr>LogMode := ''var'', NameSpace := ''svc''\<rparr>"

definition cfg_volume_no_namespace :: Config where
  "cfg_volume_no_namespace = cfg_file\<lparr>LogMode := ''var''\<rparr>"

definition cfg_console :: Config where
  "cfg_console = cfg_file\<lparr>LogMode := ''console''\<rparr>"

text \<open>The state after a successful file-mode setup, and after a console-mode setup.\<close>

definition ready_state :: state where
  "ready_state = snd (SetUp env_ok cfg_file init_state)"

definition console_state :: state where
  "console_state = snd (SetUp env_ok cfg_console init_state)"

section \<open>Properties\<close>

subsection \<open>Unfolding and the example states\<close>

lemmas const_defs = accessFilename_def errorFilename_def slowFilename_def statFilename_def
  consoleMode_def varMode_def defaultHostName_def infoPrefix_def errorPrefix_def slowPrefix_def
  backupFileDelimiter_def callerInnerDepth_def flags_def newline_def

lemmas setup_defs = SetUp_def setupWithVolume_def setupWithFiles_def setupWithFiles_body_def
  setupWithConsole_def setupWithConsole_body_def once_Do_def createOutput_def handleOptions_def
  getHostname_def WithCoolDownMillis_def WithGzip_def WithKeepDays_def emit_def
  newLogWriter_def log_New_def

lemmas close_defs = Close_def close_if_set_def sink_Close_def emit_def

lemmas example_defs = env_ok_def env_create_fails_def env_close_fails_def env_no_hostname_def
  cfg_file_def cfg_file_no_path_def cfg_volume_def cfg_volume_no_namespace_def cfg_console_def
  init_state_def

lemma ready_state_eq:
  "ready_state =
     \<lparr>writeConsole = False, infoLog = Some (FileLogger 0),
      errorLog = Some (FileLogger 1), slowLog = Some (FileLogger 2),
      statLog = Some (FileLogger 3), stackLog = Some (NewLessLogger 100),
      once = True, initialized = 1,
      options = \<lparr>gzipEnabled = True, logStackCoolDownMills = 100, keepDays = 3\<rparr>,
      trace =
        [NewLoggerCall ''logs/access.log'' (DefaultBackupRule ''logs/access.log'' ''-'' 3 True) True,
         NewLoggerCall ''logs/error.log'' (DefaultBackupRule ''logs/error.log'' ''-'' 3 True) True,
         NewLoggerCall ''logs/slow.log'' (DefaultBackupRule ''logs/slow.log'' ''-'' 3 True) True,
         NewLoggerCall ''logs/stat.log'' (DefaultBackupRule ''logs/stat.log'' ''-'' 3 True) True]\<rparr>"
  by (simp add: ready_state_def setup_defs example_defs const_defs Let_def numeral_2_eq_2 numeral_3_eq_3)

lemma ready_state_result: "fst (SetUp env_ok cfg_file init_state) = None"
  by (simp add: setup_defs example_defs const_defs Let_def)

lemma console_state_eq:
  "console_state =
     \<lparr>writeConsole = True,
      infoLog = Some (LogWriter \<lparr>logger_out = Stdout, logger_prefix = ''[INFO] '', logger_flag = 0\<rparr>),
      errorLog = Some (LogWriter \<lparr>logger_out = Stderr, logger_prefix = ''[ERROR] '', logger_flag = 0\<rparr>),
      slowLog = Some (LogWriter \<lparr>logger_out = Stderr, logger_prefix = ''[SLOW]'', logger_flag = 0\<rparr>),
      statLog = Some (LogWriter \<lparr>logger_out = Stdout, logger_prefix = ''[INFO] '', logger_flag = 0\<rparr>),
      stackLog = None, once = True, initialized = 1,
      options = \<lparr>gzipEnabled = False, logStackCoolDownMills = 0, keepDays = 0\<rparr>,
      trace = []\<rparr>"
  by (simp add: console_state_def setup_defs example_defs const_defs Let_def)

lemma failed_state_eq:
  "snd (SetUp env_create_fails cfg_file init_state) =
     \<lparr>writeConsole = False, infoLog = None, errorLog = None, slowLog = None,
      statLog = None, stackLog = None, once = True, initialized = 0,
      options = \<lparr>gzipEnabled = True, logStackCoolDownMills = 100, keepDays = 3\<rparr>,
      trace = [NewLoggerCall ''logs/access.log''
                 (DefaultBackupRule ''logs/access.log'' ''-'' 3 True) True]\<rparr>"
  by (simp add: setup_defs example_defs const_defs Let_def)

subsection \<open>What a call leaves untouched\<close>

lemma sink_Write_frame: "snd (sink_Write e w d s) = s\<lparr>trace := trace (snd (sink_Write e w d s))\<rparr>"
  by (cases w) (simp_all add: sink_Write_def emit_def Let_def)

lemma output'_frame: "output' e w m s = s\<lparr>trace := trace (output' e w m s)\<rparr>"
  by (cases w) (auto simp: output'_def emit_def sink_Write_def Let_def split: sink.splits option.splits prod.splits)

lemma outputError_frame: "outputError e w m d s = s\<lparr>trace := trace (outputError e w m d s)\<rparr>"
  by (cases w) (auto simp: outputError_def emit_def sink_Write_def Let_def split: sink.splits option.splits prod.splits)

lemma logging_frame: "is_logging c \<Longrightarrow> exec e c s = s\<lparr>trace := trace (exec e c s)\<rparr>"
proof (cases c)
  case (CallInfo m)
  then show ?thesis using output'_frame [of e _ m s] by (simp add: infoSync_def)
next
  case (CallError m d)
  then show ?thesis using outputError_frame [of e _ m d s] by (simp add: errorSync_def)
next
  case (CallSlow m)
  then show ?thesis using output'_frame [of e _ m s] by (simp add: slowSync_def)
next
  case (CallStat m)
  then show ?thesis using output'_frame [of e _ m s] by (simp add: statSync_def)
next
  case (CallStack m)
  then show ?thesis
    using output'_frame [of e None _ s] by (simp add: stackSync_def emit_def Let_def)
qed (simp_all add: is_logging_def)

lemma sink_Close_frame: "snd (sink_Close e w s) = s\<lparr>trace := trace (snd (sink_Close e w s))\<rparr>"
  by (cases w) (simp_all add: sink_Close_def emit_def Let_def)

lemma close_if_set_frame:
  "snd (close_if_set e w s) = s\<lparr>trace := trace (snd (close_if_set e w s))\<rparr>"
  using sink_Close_frame by (cases w) (simp_all add: close_if_set_def)

lemma close_if_set_fields:
  "writeConsole (snd (close_if_set e w s)) = writeConsole s"
  "initialized (snd (close_if_set e w s)) = initialized s"
  "infoLog (snd (close_if_set e w s)) = infoLog s"
  "errorLog (snd (close_if_set e w s)) = errorLog s"
  "slowLog (snd (close_if_set e w s)) = slowLog s"
  "statLog (snd (close_if_set e w s)) = statLog s"
  "stackLog (snd (close_if_set e w s)) = stackLog s"
  "once (snd (close_if_set e w s)) = once s"
  "options (snd (close_if_set e w s)) = options s"
  by (cases w; simp add: close_if_set_def sink_Close_def emit_def Let_def split: sink.splits)+

lemma Close_writeConsole: "writeConsole (snd (Close e s)) = writeConsole s"
  by (simp add: Close_def Let_def split_beta close_if_set_fields)

lemma Close_initialized:
  "\<not> writeConsole s \<Longrightarrow> initialized (snd (Close e s)) = 0"
  by (simp add: Close_def Let_def split_beta close_if_set_fields)

lemma Close_console: "writeConsole s \<Longrightarrow> Close e s = (None, s)"
  by (simp add: Close_def)


lemma createOutput_fields:
  "writeConsole (snd (createOutput e p s)) = writeConsole s"
  "initialized (snd (createOutput e p s)) = initialized s"
  "once (snd (createOutput e p s)) = once s"
  "options (snd (createOutput e p s)) = options s"
  by (simp_all add: createOutput_def emit_def Let_def split_beta)

lemma body_writeConsole:
  "writeConsole (snd (setupWithFiles_body e opts a b c d s)) = writeConsole s"
  by (simp add: setupWithFiles_body_def handleOptions_def Let_def split_beta createOutput_fields)

lemma body_initialized:
  "initialized s \<noteq> 0 \<Longrightarrow> initialized (snd (setupWithFiles_body e opts a b c d s)) \<noteq> 0"
  by (simp add: setupWithFiles_body_def handleOptions_def Let_def split_beta createOutput_fields)

lemma setupWithFiles_writeConsole:
  "writeConsole (snd (setupWithFiles e c s)) = writeConsole s"
  by (simp add: setupWithFiles_def once_Do_def Let_def split_beta body_writeConsole)

lemma setupWithFiles_initialized:
  "initialized s \<noteq> 0 \<Longrightarrow> initialized (snd (setupWithFiles e c s)) \<noteq> 0"
  by (simp add: setupWithFiles_def once_Do_def Let_def split_beta body_initialized)

lemma setupWithFiles_once: "once s \<Longrightarrow> snd (setupWithFiles e c s) = s"
  by (simp add: setupWithFiles_def once_Do_def Let_def)

lemma setupWithFiles_once_after:
  "fst (setupWithFiles e c s) = None \<Longrightarrow> once (snd (setupWithFiles e c s))"
  by (simp add: setupWithFiles_def once_Do_def Let_def split_beta split: if_splits)

lemma setupWithFiles_once_result:
  "once s \<Longrightarrow> Path c \<noteq> [] \<Longrightarrow> fst (setupWithFiles e c s) = None"
  by (simp add: setupWithFiles_def once_Do_def Let_def)

lemma SetUp_writeConsole: "writeConsole s \<Longrightarrow> writeConsole (snd (SetUp e c s))"
  by (simp add: SetUp_def setupWithVolume_def setupWithConsole_def setupWithConsole_body_def
      once_Do_def Let_def setupWithFiles_writeConsole)

lemma SetUp_initialized: "initialized s \<noteq> 0 \<Longrightarrow> initialized (snd (SetUp e c s)) \<noteq> 0"
  by (simp add: SetUp_def setupWithVolume_def setupWithConsole_def setupWithConsole_body_def
      once_Do_def Let_def setupWithFiles_initialized)

lemma exec_writeConsole: "writeConsole s \<Longrightarrow> writeConsole (exec e c s)"
proof (cases "is_logging c")
  case True
  assume "writeConsole s"
  then have "writeConsole (s\<lparr>trace := trace (exec e c s)\<rparr>)" by simp
  then show ?thesis using logging_frame [OF True, of e s] by simp
next
  case False
  assume "writeConsole s"
  with False show ?thesis
    by (cases c) (simp_all add: is_logging_def SetUp_writeConsole Close_writeConsole)
qed

lemma run_writeConsole: "writeConsole s \<Longrightarrow> writeConsole (run e cs s)"
  by (induction cs arbitrary: s) (simp_all add: exec_writeConsole)

lemma SetUp_console_writeConsole: "LogMode c = consoleMode \<Longrightarrow> writeConsole (snd (SetUp e c s))"
  by (simp add: SetUp_def setupWithConsole_def setupWithConsole_body_def once_Do_def Let_def)

subsection \<open>The setup guard\<close>

lemma setupWithFiles_once_set:
  "Path c \<noteq> [] \<Longrightarrow> once (snd (setupWithFiles e c s))"
  by (simp add: setupWithFiles_def once_Do_def Let_def split_beta)

lemma setupWithFiles_result_None:
  "fst (setupWithFiles e c s) = None \<Longrightarrow> Path c \<noteq> []"
  by (auto simp: setupWithFiles_def)

lemma setupWithFiles_idem:
  "snd (setupWithFiles e c (snd (setupWithFiles e c s))) = snd (setupWithFiles e c s)"
proof (cases "Path c = []")
  case True
  then show ?thesis by (simp add: setupWithFiles_def)
next
  case False
  then show ?thesis by (simp add: setupWithFiles_once setupWithFiles_once_set)
qed

lemma setupWithFiles_None_again:
  assumes "fst (setupWithFiles e c s) = None"
  shows "fst (setupWithFiles e c (snd (setupWithFiles e c s))) = None"
proof -
  from assms have p: "Path c \<noteq> []" by (rule setupWithFiles_result_None)
  then have "once (snd (setupWithFiles e c s))" by (rule setupWithFiles_once_set)
  then show ?thesis using p by (rule setupWithFiles_once_result)
qed

lemma setupWithConsole_idem: "setupWithConsole (setupWithConsole s) = setupWithConsole s"
  by (simp add: setupWithConsole_def setupWithConsole_body_def once_Do_def Let_def)

lemma SetUp_idem: "snd (SetUp e c (snd (SetUp e c s))) = snd (SetUp e c s)"
  by (simp add: SetUp_def setupWithVolume_def setupWithConsole_idem setupWithFiles_idem Let_def)

lemma SetUp_None_again:
  "fst (SetUp e c s) = None \<Longrightarrow> fst (SetUp e c (snd (SetUp e c s))) = None"
  by (simp add: SetUp_def setupWithVolume_def Let_def setupWithFiles_None_again split: if_splits)

lemma SetUp_once_unchanged:
  "LogMode c \<noteq> consoleMode \<Longrightarrow> once s \<Longrightarrow> snd (SetUp e c s) = s"
  by (simp add: SetUp_def setupWithVolume_def Let_def setupWithFiles_once)

lemma SetUp_None_once:
  "LogMode c \<noteq> consoleMode \<Longrightarrow> fst (SetUp e c s) = None \<Longrightarrow> once (snd (SetUp e c s))"
  by (simp add: SetUp_def setupWithVolume_def Let_def setupWithFiles_once_after split: if_splits)

lemma SetUp_n_fixed: "snd (SetUp e c t) = t \<Longrightarrow> SetUp_n e c n t = t"
  by (induction n) simp_all

lemma SetUp_n_Suc: "SetUp_n e c (Suc n) s = snd (SetUp e c s)"
  by (simp add: SetUp_n_fixed SetUp_idem)

text \<open>
  Claim C1, as stated, fails: when the guarded section of the first call fails, a second
  call does not return that error. In \<open>env_create_fails\<close> no file logger can be created;
  the first \<open>SetUp\<close> returns the error of \<open>NewLogger\<close>, the second call with the same
  configuration returns nil.
\<close>

theorem SetUp_error_not_repeated_counterexample:
  "fst (SetUp env_create_fails cfg_file init_state) = Some (ExternalError ''permission denied'')
   \<and> fst (SetUp env_create_fails cfg_file (snd (SetUp env_create_fails cfg_file init_state)))
       = None"
proof -
  have a: "fst (SetUp env_create_fails cfg_file init_state)
             = Some (ExternalError ''permission denied'')"
    by (simp add: setup_defs example_defs const_defs Let_def)
  have b: "fst (SetUp env_create_fails cfg_file (snd (SetUp env_create_fails cfg_file init_state)))
             = None"
    unfolding failed_state_eq by (simp add: setup_defs example_defs const_defs Let_def)
  from a b show ?thesis by simp
qed

text \<open>
  Claim C1, amended. For a file or volume configuration: a call of \<open>SetUp\<close> that finds the
  guard used leaves the whole state as it is (no sink is created, no variable written, no
  event recorded); after the first call, any number of further calls with the same
  configuration leave the state exactly as the first call left it, so the guarded section
  runs at most once; and when the first call returned nil, the guard is used and every
  later call returns nil.
\<close>

theorem SetUp_repeated:
  "LogMode c \<noteq> consoleMode \<Longrightarrow>
     (once s \<longrightarrow> snd (SetUp e c s) = s)
   \<and> SetUp_n e c (Suc n) s = snd (SetUp e c s)
   \<and> (fst (SetUp e c s) = None \<longrightarrow>
        once (snd (SetUp e c s)) \<and> fst (SetUp e c (SetUp_n e c (Suc n) s)) = None)"
  using SetUp_once_unchanged [of c s e] SetUp_n_Suc [of e c n s] SetUp_None_once [of c e s]
    SetUp_None_again [of e c s]
  by simp

theorem SetUp_repeated_witness:
  "LogMode cfg_file \<noteq> consoleMode
   \<and> once ready_state \<and> snd (SetUp env_ok cfg_file ready_state) = ready_state
   \<and> SetUp_n env_ok cfg_file (Suc 2) init_state = ready_state
   \<and> fst (SetUp env_ok cfg_file init_state) = None
   \<and> fst (SetUp env_ok cfg_file (SetUp_n env_ok cfg_file (Suc 2) init_state)) = None"
proof -
  have m: "LogMode cfg_file \<noteq> consoleMode" by (simp add: cfg_file_def consoleMode_def)
  have o: "once ready_state" by (simp add: ready_state_eq)
  note t = SetUp_repeated [OF m, of ready_state env_ok 2]
  note u = SetUp_repeated [OF m, of init_state env_ok 2, folded ready_state_def]
  from t o have t1: "snd (SetUp env_ok cfg_file ready_state) = ready_state" by blast
  from u have u2: "SetUp_n env_ok cfg_file (Suc 2) init_state = ready_state" by blast
  from u ready_state_result
  have u3: "fst (SetUp env_ok cfg_file (SetUp_n env_ok cfg_file (Suc 2) init_state)) = None"
    by blast
  from m o t1 u2 ready_state_result u3 show ?thesis by blast
qed

subsection \<open>Configuration errors\<close>

text \<open>
  Claim C5. In namespaced-volume mode (\<open>LogMode = "var"\<close>) with an empty namespace,
  \<open>SetUp\<close> returns \<open>ErrLogNameSpaceNotSet\<close> for every environment and every state, and the
  state it returns is the state it was given: no sink is created, no variable is written
  and no event is recorded.
\<close>

theorem SetUp_volume_empty_namespace:
  "LogMode c = varMode \<Longrightarrow> NameSpace c = [] \<Longrightarrow> SetUp e c s = (Some ErrLogNameSpaceNotSet, s)"
  by (simp add: SetUp_def setupWithVolume_def consoleMode_def varMode_def)

theorem SetUp_volume_empty_namespace_witness:
  "LogMode cfg_volume_no_namespace = varMode \<and> NameSpace cfg_volume_no_namespace = []
   \<and> SetUp env_ok cfg_volume_no_namespace init_state = (Some ErrLogNameSpaceNotSet, init_state)"
  using SetUp_volume_empty_namespace [of cfg_volume_no_namespace env_ok init_state]
  by (simp add: cfg_volume_no_namespace_def cfg_file_def varMode_def)

text \<open>
  Claim C6. In direct-file mode (any \<open>LogMode\<close> other than \<open>"console"\<close> and \<open>"var"\<close>) with an
  empty base path, \<open>SetUp\<close> returns \<open>ErrLogPathNotSet\<close> and the state is unchanged: the
  guard is not used, no option is applied, no sink is created.
\<close>

theorem SetUp_files_empty_path:
  "LogMode c \<noteq> consoleMode \<Longrightarrow> LogMode c \<noteq> varMode \<Longrightarrow> Path c = [] \<Longrightarrow>
   SetUp e c s = (Some ErrLogPathNotSet, s)"
  by (simp add: SetUp_def setupWithFiles_def)

theorem SetUp_files_empty_path_witness:
  "LogMode cfg_file_no_path \<noteq> consoleMode \<and> LogMode cfg_file_no_path \<noteq> varMode
   \<and> Path cfg_file_no_path = []
   \<and> SetUp env_ok cfg_file_no_path init_state = (Some ErrLogPathNotSet, init_state)"
  using SetUp_files_empty_path [of cfg_file_no_path env_ok init_state]
  by (simp add: cfg_file_no_path_def cfg_file_def varMode_def consoleMode_def)

subsection \<open>The host name\<close>

lemma createOutput_hostname_irrelevant:
  "createOutput (e\<lparr>os_Hostname := x\<rparr>) p s = createOutput e p s"
  by (simp add: createOutput_def)

lemma body_hostname_irrelevant:
  "setupWithFiles_body (e\<lparr>os_Hostname := x\<rparr>) opts a b c d = setupWithFiles_body e opts a b c d"
  by (rule ext) (simp add: setupWithFiles_body_def createOutput_hostname_irrelevant Let_def split_beta)

lemma setupWithFiles_hostname_irrelevant:
  "setupWithFiles (e\<lparr>os_Hostname := x\<rparr>) c s = setupWithFiles e c s"
  by (simp add: setupWithFiles_def body_hostname_irrelevant Let_def)

text \<open>
  Claim C7. In namespaced-volume mode with a namespace: when \<open>os.Hostname\<close> returns an
  error or an empty name, \<open>getHostname\<close> is \<open>"log4g"\<close>, the setup is the file setup under
  the path joined from the base path, the namespace and \<open>"log4g"\<close>, and its result and
  state are those of an environment in which the resolution succeeded with \<open>"log4g"\<close>:
  the failure does not reach the caller. When the resolution succeeds with a non-empty
  name, that name is joined into the path.
\<close>

theorem hostname_failure_uses_default:
  "LogMode c = varMode \<Longrightarrow> NameSpace c \<noteq> [] \<Longrightarrow>
     (snd (os_Hostname e) \<noteq> None \<or> fst (os_Hostname e) = [] \<longrightarrow>
        getHostname e = defaultHostName
      \<and> SetUp e c s
          = setupWithFiles e (c\<lparr>Path := path_Join e [Path c, NameSpace c, defaultHostName]\<rparr>) s
      \<and> SetUp e c s = SetUp (e\<lparr>os_Hostname := (defaultHostName, None)\<rparr>) c s)
   \<and> (snd (os_Hostname e) = None \<and> fst (os_Hostname e) \<noteq> [] \<longrightarrow>
        getHostname e = fst (os_Hostname e)
      \<and> SetUp e c s
          = setupWithFiles e (c\<lparr>Path := path_Join e [Path c, NameSpace c, fst (os_Hostname e)]\<rparr>) s)"
  by (auto simp: SetUp_def setupWithVolume_def getHostname_def consoleMode_def varMode_def
      defaultHostName_def split_beta setupWithFiles_hostname_irrelevant)

theorem hostname_failure_uses_default_witness:
  "LogMode cfg_volume = varMode \<and> NameSpace cfg_volume \<noteq> []
   \<and> snd (os_Hostname env_no_hostname) \<noteq> None
   \<and> getHostname env_no_hostname = ''log4g''
   \<and> fst (SetUp env_no_hostname cfg_volume init_state) = None
   \<and> SetUp env_no_hostname cfg_volume init_state
       = SetUp (env_no_hostname\<lparr>os_Hostname := (''log4g'', None)\<rparr>) cfg_volume init_state
   \<and> snd (os_Hostname env_ok) = None \<and> fst (os_Hostname env_ok) \<noteq> []
   \<and> getHostname env_ok = ''node1''"
proof -
  have h: "LogMode cfg_volume = varMode" "NameSpace cfg_volume \<noteq> []"
    by (simp_all add: cfg_volume_def cfg_file_def varMode_def)
  have f: "snd (os_Hostname env_no_hostname) \<noteq> None"
    by (simp add: env_no_hostname_def env_ok_def)
  have g: "snd (os_Hostname env_ok) = None" "fst (os_Hostname env_ok) \<noteq> []"
    "fst (os_Hostname env_ok) = ''node1''"
    by (simp_all add: env_ok_def)
  note t = hostname_failure_uses_default
             [OF h, of env_no_hostname init_state, unfolded defaultHostName_def]
  note u = hostname_failure_uses_default [OF h, of env_ok init_state]
  from t f have a: "getHostname env_no_hostname = ''log4g''"
    and b: "SetUp env_no_hostname cfg_volume init_state
              = SetUp (env_no_hostname\<lparr>os_Hostname := (''log4g'', None)\<rparr>) cfg_volume init_state"
    by blast+
  from u g(1,2) have "getHostname env_ok = fst (os_Hostname env_ok)"
    by blast
  then have c: "getHostname env_ok = ''node1''"
    by (simp only: g(3))
  have r: "fst (SetUp env_no_hostname cfg_volume init_state) = None"
    by (simp add: setup_defs example_defs const_defs Let_def)
  from h f a r b g(1,2) c show ?thesis by blast
qed

subsection \<open>Routing of the logging calls\<close>

lemma output'_None: "output' e None msg s = emit (StdLogPrint (AddTime e msg s)) s"
  by (simp add: output'_def)

lemma output'_Some:
  "output' e (Some w) msg s = s\<lparr>trace := trace s @ written_to e w (AddTime e msg s) s\<rparr>"
  by (cases w)
     (simp_all add: output'_def sink_Write_def written_to_def emit_def Let_def split: option.splits)

lemma outputError_None:
  "outputError e None msg d s = emit (StdLogPrint (AddTimeAndCaller e msg d s)) s"
  by (simp add: outputError_def)

lemma outputError_Some:
  "outputError e (Some w) msg d s
     = s\<lparr>trace := trace s @ written_to e w (AddTimeAndCaller e msg d s) s\<rparr>"
  by (cases w)
     (simp_all add: outputError_def sink_Write_def written_to_def emit_def Let_def split: option.splits)

text \<open>
  Claim C8. While \<open>initialized\<close> is 0, each of the five logging call sites (info, error,
  slow, stat, stack) only prints its line through \<open>log.Print\<close> of the standard library and
  touches no sink. Once \<open>initialized\<close> is not 0, the info, error, slow and stat call
  sites write the line to the sink configured for their category (and nothing is printed
  through \<open>log.Print\<close>), and the stack call site hands the text to \<open>stackLog.Errorf\<close>.
\<close>

theorem logging_routed_by_initialized:
  "(initialized s = 0 \<longrightarrow>
       infoSync e msg s = emit (StdLogPrint (AddTime e msg s)) s
     \<and> errorSync e msg d s = emit (StdLogPrint (AddTimeAndCaller e msg d s)) s
     \<and> slowSync e msg s = emit (StdLogPrint (AddTime e msg s)) s
     \<and> statSync e msg s = emit (StdLogPrint (AddTime e msg s)) s
     \<and> stackSync e msg s
         = emit (StdLogPrint (AddTime e (msg @ [newline] @ debug_Stack e (trace s)) s)) s)
   \<and> (initialized s \<noteq> 0 \<longrightarrow>
       (infoLog s = Some w1 \<longrightarrow>
          infoSync e msg s = s\<lparr>trace := trace s @ written_to e w1 (AddTime e msg s) s\<rparr>)
     \<and> (errorLog s = Some w2 \<longrightarrow>
          errorSync e msg d s
            = s\<lparr>trace := trace s @ written_to e w2 (AddTimeAndCaller e msg d s) s\<rparr>)
     \<and> (slowLog s = Some w3 \<longrightarrow>
          slowSync e msg s = s\<lparr>trace := trace s @ written_to e w3 (AddTime e msg s) s\<rparr>)
     \<and> (statLog s = Some w4 \<longrightarrow>
          statSync e msg s = s\<lparr>trace := trace s @ written_to e w4 (AddTime e msg s) s\<rparr>)
     \<and> stackSync e msg s
         = emit (LessLoggerErrorf (stackLog s) (msg @ [newline] @ debug_Stack e (trace s))) s)"
  by (simp add: infoSync_def errorSync_def slowSync_def statSync_def stackSync_def
      output'_None output'_Some outputError_None outputError_Some)

theorem logging_routed_by_initialized_witness:
  "initialized init_state = 0
   \<and> infoSync env_ok ''hello'' init_state
       = emit (StdLogPrint ''2020-01-02 03:04:05.000 hello'') init_state
   \<and> initialized ready_state \<noteq> 0
   \<and> infoLog ready_state = Some (FileLogger 0)
   \<and> infoSync env_ok ''hello'' ready_state
       = ready_state\<lparr>trace := trace ready_state
                                @ [FileWrite 0 ''2020-01-02 03:04:05.000 hello'' None]\<rparr>
   \<and> errorLog ready_state = Some (FileLogger 1)
   \<and> errorSync env_ok ''hello'' 6 ready_state
       = ready_state\<lparr>trace := trace ready_state
                                @ [FileWrite 1 ''2020-01-02 03:04:05.000 main.go:42 hello'' None]\<rparr>
   \<and> slowLog ready_state = Some (FileLogger 2)
   \<and> slowSync env_ok ''hello'' ready_state
       = ready_state\<lparr>trace := trace ready_state
                                @ [FileWrite 2 ''2020-01-02 03:04:05.000 hello'' None]\<rparr>
   \<and> statLog ready_state = Some (FileLogger 3)
   \<and> statSync env_ok ''hello'' ready_state
       = ready_state\<lparr>trace := trace ready_state
                                @ [FileWrite 3 ''2020-01-02 03:04:05.000 hello'' None]\<rparr>
   \<and> stackSync env_ok ''hello'' ready_state
       = emit (LessLoggerErrorf (Some (NewLessLogger 100)) (''hello'' @ [newline] @ ''goroutine 1''))
           ready_state"
proof -
  have i0: "initialized init_state = 0" by (simp add: init_state_def)
  have i1: "initialized ready_state \<noteq> 0" "infoLog ready_state = Some (FileLogger 0)"
    "errorLog ready_state = Some (FileLogger 1)" "slowLog ready_state = Some (FileLogger 2)"
    "statLog ready_state = Some (FileLogger 3)" "stackLog ready_state = Some (NewLessLogger 100)"
    by (simp_all add: ready_state_eq)
  have t0: "AddTime env_ok ''hello'' init_state = ''2020-01-02 03:04:05.000 hello''"
    by (simp add: AddTime_def env_ok_def)
  have w: "written_to env_ok (FileLogger h) (AddTime env_ok ''hello'' ready_state) ready_state
              = [FileWrite h ''2020-01-02 03:04:05.000 hello'' None]" for h
    by (simp add: written_to_def AddTime_def env_ok_def)
  have atc: "AddTimeAndCaller env_ok ''hello'' 6 ready_state
               = ''2020-01-02 03:04:05.000 main.go:42 hello''"
    by code_simp
  have w2: "written_to env_ok (FileLogger h)
                   (AddTimeAndCaller env_ok ''hello'' 6 ready_state) ready_state
              = [FileWrite h ''2020-01-02 03:04:05.000 main.go:42 hello'' None]" for h
    unfolding atc by (simp add: written_to_def env_ok_def)
  have st: "debug_Stack env_ok (trace ready_state) = ''goroutine 1''"
    by (simp add: env_ok_def)
  note t = logging_routed_by_initialized [of init_state env_ok "''hello''" 6]
  note u = logging_routed_by_initialized
             [of ready_state env_ok "''hello''" 6 "FileLogger 0" "FileLogger 1" "FileLogger 2"
                 "FileLogger 3"]
  from i0 t have a: "infoSync env_ok ''hello'' init_state
       = emit (StdLogPrint ''2020-01-02 03:04:05.000 hello'') init_state"
    by (simp add: t0)
  from i1 u have b: "infoSync env_ok ''hello'' ready_state
       = ready_state\<lparr>trace := trace ready_state
                                @ [FileWrite 0 ''2020-01-02 03:04:05.000 hello'' None]\<rparr>"
    "errorSync env_ok ''hello'' 6 ready_state
       = ready_state\<lparr>trace := trace ready_state
                                @ [FileWrite 1 ''2020-01-02 03:04:05.000 main.go:42 hello'' None]\<rparr>"
    "slowSync env_ok ''hello'' ready_state
       = ready_state\<lparr>trace := trace ready_state
                                @ [FileWrite 2 ''2020-01-02 03:04:05.000 hello'' None]\<rparr>"
    "statSync env_ok ''hello'' ready_state
       = ready_state\<lparr>trace := trace ready_state
                                @ [FileWrite 3 ''2020-01-02 03:04:05.000 hello'' None]\<rparr>"
    "stackSync env_ok ''hello'' ready_state
       = emit (LessLoggerErrorf (Some (NewLessLogger 100)) (''hello'' @ [newline] @ ''goroutine 1''))
           ready_state"
    by (simp_all add: w w2 st)
  from i0 a i1 b show ?thesis by blast
qed

subsection \<open>Closing\<close>

lemma close_if_set_None: "close_if_set e None s = (None, s)"
  by (simp add: close_if_set_def)

lemma close_if_set_LogWriter: "close_if_set e (Some (LogWriter l)) s = (None, s)"
  by (simp add: close_if_set_def sink_Close_def)

lemma close_if_set_FileLogger:
  "close_if_set e (Some (FileLogger h)) s
     = (file_Close e (trace s) h, s\<lparr>trace := trace s @ [FileClose h (file_Close e (trace s) h)]\<rparr>)"
  by (simp add: close_if_set_def sink_Close_def emit_def Let_def)

lemma Close_close_seq:
  "\<not> writeConsole s \<Longrightarrow> initialized s \<noteq> 0 \<Longrightarrow>
   Close e s =
     (fst (close_seq e (trace s) (sinks_in_order s)),
      s\<lparr>initialized := 0,
        trace := trace s @ snd (close_seq e (trace s) (sinks_in_order s))\<rparr>)"
  by (cases "infoLog s"; cases "the (infoLog s)"; cases "errorLog s"; cases "the (errorLog s)";
      cases "slowLog s"; cases "the (slowLog s)"; cases "statLog s"; cases "the (statLog s)")
     (simp_all add: Close_def sinks_in_order_def Let_def split_beta close_if_set_None
        close_if_set_LogWriter close_if_set_FileLogger)

lemma close_seq_only_closes:
  "length (closed_handles (snd (close_seq e hist ws))) = length (snd (close_seq e hist ws))"
  by (induction e hist ws rule: close_seq.induct) (simp_all add: Let_def split_beta)

lemma close_seq_prefix:
  "\<exists>k. closed_handles (snd (close_seq e hist ws)) = take k (file_handles ws)"
proof (induction e hist ws rule: close_seq.induct)
  case (2 e hist h ws)
  show ?case
  proof (cases "file_Close e hist h")
    case None
    with 2 obtain k where
      "closed_handles (snd (close_seq e (hist @ [FileClose h None]) ws)) = take k (file_handles ws)"
      by auto
    with None have "closed_handles (snd (close_seq e hist (Some (FileLogger h) # ws)))
                      = take (Suc k) (file_handles (Some (FileLogger h) # ws))"
      by (simp add: split_beta)
    then show ?thesis by blast
  next
    case (Some x)
    then have "closed_handles (snd (close_seq e hist (Some (FileLogger h) # ws)))
                 = take (Suc 0) (file_handles (Some (FileLogger h) # ws))"
      by (simp add: Let_def)
    then show ?thesis by blast
  qed
qed simp_all

lemma close_seq_all:
  "fst (close_seq e hist ws) = None \<Longrightarrow>
     closed_handles (snd (close_seq e hist ws)) = file_handles ws
   \<and> (\<forall>r \<in> set (close_answers (snd (close_seq e hist ws))). r = None)"
  by (induction e hist ws rule: close_seq.induct)
     (auto simp: Let_def split_beta split: if_splits)

lemma close_seq_error:
  "fst (close_seq e hist ws) = Some x \<Longrightarrow>
     close_answers (snd (close_seq e hist ws)) \<noteq> []
   \<and> last (close_answers (snd (close_seq e hist ws))) = Some x
   \<and> (\<forall>r \<in> set (butlast (close_answers (snd (close_seq e hist ws)))). r = None)"
  by (induction e hist ws rule: close_seq.induct)
     (auto simp: Let_def split_beta split: if_splits)

lemma body_success_initialized:
  "fst (setupWithFiles_body e opts a b c d s) = None \<Longrightarrow>
   initialized (snd (setupWithFiles_body e opts a b c d s)) = 1"
  by (simp add: setupWithFiles_body_def Let_def split_beta split: if_splits)

lemma setupWithFiles_success_ready:
  assumes "\<not> once s" and "fst (setupWithFiles e c s) = None"
  shows "initialized (snd (setupWithFiles e c s)) = 1"
proof (cases "Path c = []")
  case True
  with assms(2) show ?thesis by (simp add: setupWithFiles_def)
next
  case False
  with assms show ?thesis
    by (simp add: setupWithFiles_def once_Do_def Let_def split_beta body_success_initialized)
qed

lemma SetUp_success_ready:
  assumes "LogMode c \<noteq> consoleMode" and "\<not> once s" and "fst (SetUp e c s) = None"
  shows "initialized (snd (SetUp e c s)) = 1 \<and> writeConsole (snd (SetUp e c s)) = writeConsole s"
proof (cases "LogMode c = varMode")
  case True
  show ?thesis
  proof (cases "NameSpace c = []")
    case True
    with \<open>LogMode c = varMode\<close> assms show ?thesis
      by (simp add: SetUp_def setupWithVolume_def)
  next
    case False
    with \<open>LogMode c = varMode\<close> assms show ?thesis
      by (simp add: SetUp_def setupWithVolume_def Let_def setupWithFiles_success_ready
          setupWithFiles_writeConsole)
  qed
next
  case False
  with assms show ?thesis
    by (simp add: SetUp_def setupWithFiles_success_ready setupWithFiles_writeConsole)
qed

lemma close_fails_setup: "SetUp env_close_fails cfg_file init_state = (None, ready_state)"
  by (simp add: ready_state_eq setup_defs example_defs const_defs Let_def numeral_2_eq_2
      numeral_3_eq_3)

lemma Close_ok_ready: "fst (Close env_ok ready_state) = None"
  by (simp add: ready_state_eq close_defs env_ok_def)

lemma Close_fails_ready:
  "Close env_close_fails ready_state
     = (Some (ExternalError ''close failed''),
        ready_state\<lparr>initialized := 0,
          trace := trace ready_state @ [FileClose 0 (Some (ExternalError ''close failed''))]\<rparr>)"
  by (simp add: ready_state_eq close_defs env_close_fails_def env_ok_def Let_def)

text \<open>
  Claim C2, as stated, fails: \<open>Close\<close> does not go on after a close that fails. In
  \<open>env_close_fails\<close> the file-mode setup succeeds and closing the access sink (handle 0)
  fails; \<open>Close\<close> returns that error and the only close call it has made is the one on
  handle 0: the error, slow and stat sinks (handles 1, 2, 3) are not closed.
\<close>

theorem Close_stops_at_failed_close_counterexample:
  "fst (SetUp env_close_fails cfg_file init_state) = None
   \<and> errorLog (snd (SetUp env_close_fails cfg_file init_state)) = Some (FileLogger 1)
   \<and> slowLog (snd (SetUp env_close_fails cfg_file init_state)) = Some (FileLogger 2)
   \<and> statLog (snd (SetUp env_close_fails cfg_file init_state)) = Some (FileLogger 3)
   \<and> fst (Close env_close_fails (snd (SetUp env_close_fails cfg_file init_state)))
       = Some (ExternalError ''close failed'')
   \<and> new_events (snd (SetUp env_close_fails cfg_file init_state))
         (snd (Close env_close_fails (snd (SetUp env_close_fails cfg_file init_state))))
       = [FileClose 0 (Some (ExternalError ''close failed''))]"
  unfolding close_fails_setup snd_conv fst_conv Close_fails_ready
  by (simp add: new_events_def ready_state_eq)

text \<open>
  Claim C2, amended. When \<open>Close\<close> is called with the flag set and outside console mode
  (the state a successful file-mode setup leaves, lemma \<open>SetUp_success_ready\<close>), it stores
  0 into \<open>initialized\<close> and otherwise only makes close calls: on the file loggers among
  the access, error, slow and stat sinks, in that order, up to the first call that returns
  an error. If it returns nil, every one of them has been closed and every call answered
  nil. If it returns an error, that error is the answer of the last close call made, all
  earlier calls answered nil, and the sinks after it are not closed.
\<close>

theorem Close_in_order_until_error:
  "\<not> writeConsole s \<Longrightarrow> initialized s \<noteq> 0 \<Longrightarrow>
     snd (Close e s) = s\<lparr>initialized := 0, trace := trace s @ new_events s (snd (Close e s))\<rparr>
   \<and> length (closed_handles (new_events s (snd (Close e s))))
       = length (new_events s (snd (Close e s)))
   \<and> (\<exists>k. closed_handles (new_events s (snd (Close e s)))
             = take k (file_handles (sinks_in_order s)))
   \<and> (fst (Close e s) = None \<longrightarrow>
         closed_handles (new_events s (snd (Close e s))) = file_handles (sinks_in_order s)
       \<and> (\<forall>r \<in> set (close_answers (new_events s (snd (Close e s)))). r = None))
   \<and> (fst (Close e s) \<noteq> None \<longrightarrow>
         close_answers (new_events s (snd (Close e s))) \<noteq> []
       \<and> last (close_answers (new_events s (snd (Close e s)))) = fst (Close e s)
       \<and> (\<forall>r \<in> set (butlast (close_answers (new_events s (snd (Close e s))))). r = None))"
proof -
  assume a: "\<not> writeConsole s" "initialized s \<noteq> 0"
  let ?q = "close_seq e (trace s) (sinks_in_order s)"
  have c: "Close e s = (fst ?q, s\<lparr>initialized := 0, trace := trace s @ snd ?q\<rparr>)"
    using a by (rule Close_close_seq)
  have n: "new_events s (snd (Close e s)) = snd ?q"
    by (simp add: c new_events_def)
  have r: "fst (Close e s) = fst ?q"
    by (simp add: c)
  have 1: "snd (Close e s) = s\<lparr>initialized := 0, trace := trace s @ snd ?q\<rparr>"
    by (simp add: c)
  have 2: "length (closed_handles (snd ?q)) = length (snd ?q)"
    by (rule close_seq_only_closes)
  have 3: "\<exists>k. closed_handles (snd ?q) = take k (file_handles (sinks_in_order s))"
    by (rule close_seq_prefix)
  have 4: "fst ?q = None \<longrightarrow>
             closed_handles (snd ?q) = file_handles (sinks_in_order s)
           \<and> (\<forall>r \<in> set (close_answers (snd ?q)). r = None)"
    using close_seq_all by blast
  have 5: "fst ?q \<noteq> None \<longrightarrow>
             close_answers (snd ?q) \<noteq> []
           \<and> last (close_answers (snd ?q)) = fst ?q
           \<and> (\<forall>r \<in> set (butlast (close_answers (snd ?q))). r = None)"
    using close_seq_error [of e "trace s" "sinks_in_order s"] by auto
  from 1 2 3 4 5 show ?thesis unfolding n r by blast
qed

theorem Close_in_order_until_error_witness:
  "\<not> writeConsole ready_state \<and> initialized ready_state \<noteq> 0
   \<and> fst (Close env_ok ready_state) = None
   \<and> closed_handles (new_events ready_state (snd (Close env_ok ready_state))) = [0, 1, 2, 3]
   \<and> fst (Close env_close_fails ready_state) \<noteq> None
   \<and> last (close_answers (new_events ready_state (snd (Close env_close_fails ready_state))))
       = Some (ExternalError ''close failed'')"
proof -
  have h: "\<not> writeConsole ready_state" "initialized ready_state \<noteq> 0"
    by (simp_all add: ready_state_eq)
  have fh: "file_handles (sinks_in_order ready_state) = [0, 1, 2, 3]"
    by (simp add: sinks_in_order_def ready_state_eq)
  have f: "fst (Close env_close_fails ready_state) = Some (ExternalError ''close failed'')"
    by (simp add: Close_fails_ready)
  note t = Close_in_order_until_error [OF h, of env_ok]
  note u = Close_in_order_until_error [OF h, of env_close_fails]
  from t Close_ok_ready fh
  have a: "closed_handles (new_events ready_state (snd (Close env_ok ready_state))) = [0, 1, 2, 3]"
    by simp
  from u f
  have b: "last (close_answers (new_events ready_state (snd (Close env_close_fails ready_state))))
             = Some (ExternalError ''close failed'')"
    by simp
  from h Close_ok_ready a f b show ?thesis by simp
qed

text \<open>
  Claim C3, as stated, fails: before any setup \<open>Close\<close> returns \<open>ErrLogNotInitialized\<close>,
  not nil; and after a successful file-mode setup the first \<open>Close\<close> returns nil and the
  second returns \<open>ErrLogNotInitialized\<close>.
\<close>

theorem Close_uninitialized_counterexample:
  "fst (Close env_ok init_state) = Some ErrLogNotInitialized
   \<and> fst (Close env_ok ready_state) = None
   \<and> fst (Close env_ok (snd (Close env_ok ready_state))) = Some ErrLogNotInitialized"
  by (simp add: ready_state_eq close_defs env_ok_def init_state_def)

text \<open>
  Claim C3, amended. Outside console mode, \<open>Close\<close> called while \<open>initialized\<close> is 0 (so
  before any setup has completed) returns \<open>ErrLogNotInitialized\<close> and changes nothing, and
  a \<open>Close\<close> that follows another \<open>Close\<close> returns \<open>ErrLogNotInitialized\<close>.
\<close>

theorem Close_not_initialized:
  "\<not> writeConsole s \<Longrightarrow>
     (initialized s = 0 \<longrightarrow> Close e s = (Some ErrLogNotInitialized, s))
   \<and> fst (Close e (snd (Close e s))) = Some ErrLogNotInitialized"
proof -
  assume nc: "\<not> writeConsole s"
  have a: "initialized s = 0 \<longrightarrow> Close e s = (Some ErrLogNotInitialized, s)"
    using nc by (simp add: Close_def)
  have "\<not> writeConsole (snd (Close e s))" "initialized (snd (Close e s)) = 0"
    using nc by (simp_all add: Close_writeConsole Close_initialized)
  then have "fst (Close e (snd (Close e s))) = Some ErrLogNotInitialized"
    by (simp add: Close_def)
  with a show ?thesis by simp
qed

theorem Close_not_initialized_witness:
  "\<not> writeConsole init_state \<and> initialized init_state = 0
   \<and> Close env_ok init_state = (Some ErrLogNotInitialized, init_state)
   \<and> fst (Close env_ok (snd (Close env_ok init_state))) = Some ErrLogNotInitialized"
  using Close_not_initialized [of init_state env_ok] by (simp add: init_state_def)

text \<open>
  Claim C4, as stated, fails: after a successful file-mode setup \<open>initialized\<close> is 1, and
  \<open>Close\<close> stores 0 into it.
\<close>

theorem initialized_reset_counterexample:
  "fst (SetUp env_ok cfg_file init_state) = None
   \<and> initialized (snd (SetUp env_ok cfg_file init_state)) = 1
   \<and> initialized (snd (Close env_ok (snd (SetUp env_ok cfg_file init_state)))) = 0"
proof -
  have st: "snd (SetUp env_ok cfg_file init_state) = ready_state"
    by (simp add: ready_state_def)
  show ?thesis
    unfolding st using ready_state_result
    by (simp add: ready_state_eq close_defs env_ok_def)
qed

text \<open>
  Claim C4, amended. Once \<open>initialized\<close> is not 0, no call other than \<open>Close\<close> makes it 0:
  \<open>SetUp\<close> never clears it, and the logging call sites change nothing but the trace.
  \<open>Close\<close> leaves the state alone in console mode and stores 0 into \<open>initialized\<close>
  otherwise.
\<close>

theorem initialized_cleared_only_by_Close:
  "initialized s \<noteq> 0 \<Longrightarrow>
     (c \<noteq> CallClose \<longrightarrow> initialized (exec e c s) \<noteq> 0)
   \<and> (is_logging c \<longrightarrow> exec e c s = s\<lparr>trace := trace (exec e c s)\<rparr>)
   \<and> (writeConsole s \<longrightarrow> exec e CallClose s = s)
   \<and> (\<not> writeConsole s \<longrightarrow> initialized (exec e CallClose s) = 0)"
proof -
  assume r: "initialized s \<noteq> 0"
  have a: "c \<noteq> CallClose \<longrightarrow> initialized (exec e c s) \<noteq> 0"
  proof (cases "is_logging c")
    case True
    from r have "initialized (s\<lparr>trace := trace (exec e c s)\<rparr>) \<noteq> 0" by simp
    then show ?thesis using logging_frame [OF True, of e s] by simp
  next
    case False
    with r show ?thesis by (cases c) (simp_all add: is_logging_def SetUp_initialized)
  qed
  have b: "is_logging c \<longrightarrow> exec e c s = s\<lparr>trace := trace (exec e c s)\<rparr>"
    using logging_frame by blast
  have c: "writeConsole s \<longrightarrow> exec e CallClose s = s" by (simp add: Close_console)
  have d: "\<not> writeConsole s \<longrightarrow> initialized (exec e CallClose s) = 0"
    by (simp add: Close_initialized)
  from a b c d show ?thesis by blast
qed

theorem initialized_cleared_only_by_Close_witness:
  "initialized ready_state \<noteq> 0
   \<and> initialized (exec env_ok (CallInfo ''hello'') ready_state) \<noteq> 0
   \<and> initialized (exec env_ok (CallSetUp cfg_file) ready_state) \<noteq> 0
   \<and> exec env_ok (CallInfo ''hello'') ready_state
       = ready_state\<lparr>trace := trace (exec env_ok (CallInfo ''hello'') ready_state)\<rparr>
   \<and> \<not> writeConsole ready_state
   \<and> initialized (exec env_ok CallClose ready_state) = 0
   \<and> initialized console_state \<noteq> 0 \<and> writeConsole console_state
   \<and> exec env_ok CallClose console_state = console_state"
proof -
  have r: "initialized ready_state \<noteq> 0" "\<not> writeConsole ready_state"
    by (simp_all add: ready_state_eq)
  have k: "initialized console_state \<noteq> 0" "writeConsole console_state"
    by (simp_all add: console_state_eq)
  note t = initialized_cleared_only_by_Close [OF r(1), of "CallInfo ''hello''" env_ok]
  note u = initialized_cleared_only_by_Close [OF r(1), of "CallSetUp cfg_file" env_ok]
  note v = initialized_cleared_only_by_Close [OF k(1), of "CallInfo ''hello''" env_ok]
  have l: "is_logging (CallInfo ''hello'')"
    by (simp add: is_logging_def)
  from t l r have a: "initialized (exec env_ok (CallInfo ''hello'') ready_state) \<noteq> 0"
    "exec env_ok (CallInfo ''hello'') ready_state
       = ready_state\<lparr>trace := trace (exec env_ok (CallInfo ''hello'') ready_state)\<rparr>"
    "initialized (exec env_ok CallClose ready_state) = 0"
    by blast+
  from u have b: "initialized (exec env_ok (CallSetUp cfg_file) ready_state) \<noteq> 0"
    by blast
  from v k have c: "exec env_ok CallClose console_state = console_state"
    by blast
  from r a b k c show ?thesis by blast
qed

text \<open>
  Claim C9. After a console-mode \<open>SetUp\<close>, and after any further calls of the package,
  \<open>Close\<close> returns nil and the state it returns is the state it was given: no sink is
  closed, \<open>initialized\<close> and the sinks are as before, and so every later logging call
  does what it would have done without the \<open>Close\<close>.
\<close>

theorem Close_noop_after_console_setup:
  "LogMode c = consoleMode \<Longrightarrow>
     Close e (run e cs (snd (SetUp e c s))) = (None, run e cs (snd (SetUp e c s)))
   \<and> exec e l (snd (Close e (run e cs (snd (SetUp e c s)))))
       = exec e l (run e cs (snd (SetUp e c s)))"
  by (simp add: Close_console run_writeConsole SetUp_console_writeConsole)

theorem Close_noop_after_console_setup_witness:
  "LogMode cfg_console = consoleMode
   \<and> Close env_ok (run env_ok [CallInfo ''hello'', CallClose] console_state)
       = (None, run env_ok [CallInfo ''hello'', CallClose] console_state)
   \<and> exec env_ok (CallStat ''bye'')
        (snd (Close env_ok (run env_ok [CallInfo ''hello'', CallClose] console_state)))
       = exec env_ok (CallStat ''bye'') (run env_ok [CallInfo ''hello'', CallClose] console_state)"
  using Close_noop_after_console_setup
          [of cfg_console env_ok "[CallInfo ''hello'', CallClose]" init_state "CallStat ''bye''"]
  by (simp add: console_state_def cfg_console_def consoleMode_def)

subsection \<open>Console mode\<close>











end
